theory Spec2Isabelle
  imports Complex_Main "HOL-Library.Multiset"
begin

section \<open>PurpleAir sensor status checker (streamlit\_app.py)\<close>

text \<open>
  The program polls one HTTP endpoint per configured sensor, labels every answer with a
  status string and a colour, keeps the labelled batch in the session state and shows it
  as a table sorted by severity and as a map.

  Modelling decisions, all of them visible in the definitions below:
  \<^item> A Python \<open>str\<close> is a \<open>string\<close> holding its UTF-8 bytes. The three emoji
    that start the status labels are named constants. UTF-8 is a prefix code, so
    \<open>startswith\<close> on code points and on bytes agree.
  \<^item> The wall clock and the remote API are the \<open>world\<close>: the clock reading taken
    while a sensor is processed, and the outcome of the request for a URL and an API key.
  \<^item> The \<open>sensor\<close> object of a response body is a record of optional fields. The
    fields hold what the API's schema says they hold (\<open>last_seen\<close> and
    \<open>confidence\<close> integers, the coordinates decimal numbers); \<open>None\<close> is an
    absent key. Floating-point numbers are real numbers here.
  \<^item> The three exits of the \<open>try\<close> block of \<open>get_sensor_data\<close> are the three
    constructors of \<open>http_outcome\<close>.
\<close>

subsection \<open>Strings\<close>

text \<open>U+274C (cross mark), U+26A0 U+FE0F (warning sign, emoji presentation) and
  U+2705 (check mark), as the source file encodes them.\<close>

definition cross_mark :: string where
  "cross_mark = [CHR 0xE2, CHR 0x9D, CHR 0x8C]"

definition warning_sign :: string where
  "warning_sign = [CHR 0xE2, CHR 0x9A, CHR 0xA0, CHR 0xEF, CHR 0xB8, CHR 0x8F]"

definition check_mark :: string where
  "check_mark = [CHR 0xE2, CHR 0x9C, CHR 0x85]"

text \<open>The decimal rendering of an integer inside an f-string.\<close>

fun digits :: "nat \<Rightarrow> string" where
  "digits n = (if n < 10 then [''0123456789'' ! n]
               else digits (n div 10) @ [''0123456789'' ! (n mod 10)])"

declare digits.simps [simp del]

definition str_int :: "int \<Rightarrow> string" where
  "str_int i = (if i < 0 then CHR ''-'' # digits (nat (- i)) else digits (nat i))"

text \<open>\<open>s.startswith(p)\<close> and \<open>p in s\<close>.\<close>

definition startswith :: "string \<Rightarrow> string \<Rightarrow> bool" where
  "startswith s p = (take (length p) s = p)"

fun contains :: "string \<Rightarrow> string \<Rightarrow> bool" where
  "contains [] p = (p = [])"
| "contains (c # s) p = (startswith (c # s) p \<or> contains s p)"

subsection \<open>Configuration\<close>

definition SENSOR_INDICES :: "int list" where
  "SENSOR_INDICES =
    [270898, 279253, 279251, 133435, 155503, 155501, 155521, 155533,
     155537, 155567, 155569, 155591, 155595, 155597, 155601, 155607,
     155605, 155613, 155629, 155639, 155673, 155679, 155691, 162991,
     163031, 163169]"

definition API_BASE_URL :: string where
  "API_BASE_URL = ''https://api.purpleair.com/v1/sensors/''"

definition FIELDS_TO_REQUEST :: string where
  "FIELDS_TO_REQUEST =
     ''name,model,hardware,last_seen,confidence,rssi,uptime,'' @
     ''latitude,longitude,pm2.5,pm2.5_60minute,temperature_a''"

definition STALE_THRESHOLD_SECONDS :: real where
  "STALE_THRESHOLD_SECONDS = 600"

definition LOW_CONFIDENCE_THRESHOLD :: int where
  "LOW_CONFIDENCE_THRESHOLD = 75"

datatype color_key = online | low_confidence | offline

fun STATUS_COLORS :: "color_key \<Rightarrow> nat list" where
  "STATUS_COLORS online = [0, 255, 0, 160]"
| "STATUS_COLORS low_confidence = [255, 255, 0, 160]"
| "STATUS_COLORS offline = [255, 0, 0, 160]"

subsection \<open>The world, the response and the labelled record\<close>

record sensor =
  s_name :: "string option"
  s_last_seen :: "int option"
  s_confidence :: "int option"
  s_latitude :: "real option"
  s_longitude :: "real option"
  s_others :: "(string \<times> string) list"

text \<open>
  \<open>Json body\<close>: the request returned, \<open>raise_for_status\<close> passed and the body
  parsed; \<open>body\<close> is the value under the key \<open>sensor\<close>, if there is one.
  \<open>HTTPError code\<close>: \<open>raise_for_status\<close> raised for the status \<open>code\<close>.
  \<open>RequestException\<close>: any other exception of that class (no response).
\<close>

datatype http_outcome = Json "sensor option" | HTTPError int | RequestException

record world =
  utcnow :: "int \<Rightarrow> real"
  requests_get :: "string \<Rightarrow> string \<Rightarrow> http_outcome"
  secrets :: "string \<rightharpoonup> string"

record reading =
  sensor_index :: int
  status :: string
  name :: "string option"
  color :: "nat list"
  last_seen :: "int option"
  confidence :: "int option"
  latitude :: "real option"
  longitude :: "real option"
  others :: "(string \<times> string) list"

text \<open>\<open>resp.json().get('sensor', {})\<close>\<close>

definition get_sensor :: "sensor option \<Rightarrow> sensor" where
  "get_sensor body =
     (case body of
        None \<Rightarrow> \<lparr>s_name = None, s_last_seen = None, s_confidence = None,
                 s_latitude = None, s_longitude = None, s_others = []\<rparr>
      | Some d \<Rightarrow> d)"

text \<open>The dictionary \<open>data\<close> once \<open>sensor_index\<close>, \<open>status\<close> and \<open>color\<close>
  are stored in it.\<close>

definition labelled :: "sensor \<Rightarrow> int \<Rightarrow> string \<Rightarrow> nat list \<Rightarrow> reading" where
  "labelled data idx st col =
     \<lparr>sensor_index = idx, status = st, name = s_name data, color = col,
      last_seen = s_last_seen data, confidence = s_confidence data,
      latitude = s_latitude data, longitude = s_longitude data,
      others = s_others data\<rparr>"

text \<open>The dictionary literal of the two \<open>except\<close> branches.\<close>

definition placeholder :: "int \<Rightarrow> string \<Rightarrow> reading" where
  "placeholder idx st =
     \<lparr>sensor_index = idx, status = st, name = Some ''N/A'',
      color = STATUS_COLORS offline,
      last_seen = None, confidence = None, latitude = None, longitude = None,
      others = []\<rparr>"

subsection \<open>The status labels\<close>

definition offline_label :: "int \<Rightarrow> string" where
  "offline_label hrs = cross_mark @ '' Offline ('' @ str_int hrs @ '' hr ago)''"

definition low_confidence_label :: "int \<Rightarrow> string" where
  "low_confidence_label conf =
     warning_sign @ '' Low Confidence ('' @ str_int conf @ ''%)''"

definition online_label :: string where
  "online_label = check_mark @ '' Online''"

definition http_error_msg :: "int \<Rightarrow> string" where
  "http_error_msg code =
     (let msg = cross_mark @ '' HTTP '' @ str_int code;
          msg = (if code = 403 then msg @ '' (Invalid API Key?)'' else msg);
          msg = (if code = 404 then msg @ '' (Not Found)'' else msg)
      in msg)"

definition request_error_label :: string where
  "request_error_label = cross_mark @ '' Request Error''"

subsection \<open>get\_sensor\_data\<close>

definition request_url :: "int \<Rightarrow> string" where
  "request_url idx = API_BASE_URL @ str_int idx @ ''?fields='' @ FIELDS_TO_REQUEST"

definition get_sensor_data :: "world \<Rightarrow> string \<Rightarrow> int \<Rightarrow> reading" where
  "get_sensor_data w api_key idx =
     (case requests_get w (request_url idx) api_key of
        Json body \<Rightarrow>
          (let data = get_sensor body;
               seen = (case s_last_seen data of None \<Rightarrow> 0 | Some t \<Rightarrow> t);
               age_sec = utcnow w idx - real_of_int seen;
               conf = (case s_confidence data of None \<Rightarrow> 0 | Some c \<Rightarrow> c)
           in if age_sec > STALE_THRESHOLD_SECONDS then
                (let hrs = \<lfloor>age_sec / 3600\<rfloor>
                 in labelled data idx (offline_label hrs) (STATUS_COLORS offline))
              else if conf < LOW_CONFIDENCE_THRESHOLD then
                labelled data idx (low_confidence_label conf) (STATUS_COLORS low_confidence)
              else
                labelled data idx online_label (STATUS_COLORS online))
      | HTTPError code \<Rightarrow> placeholder idx (http_error_msg code)
      | RequestException \<Rightarrow> placeholder idx request_error_label)"

text \<open>The age that the success branch computes.\<close>

definition age_seconds :: "world \<Rightarrow> int \<Rightarrow> sensor \<Rightarrow> real" where
  "age_seconds w idx data =
     utcnow w idx - real_of_int (case s_last_seen data of None \<Rightarrow> 0 | Some t \<Rightarrow> t)"

definition conf_or_zero :: "sensor \<Rightarrow> int" where
  "conf_or_zero data = (case s_confidence data of None \<Rightarrow> 0 | Some c \<Rightarrow> c)"

subsection \<open>Session state and the two callbacks\<close>

record ViewState =
  view_latitude :: real
  view_longitude :: real
  zoom :: int
  pitch :: int

definition DEFAULT_VIEW :: ViewState where
  "DEFAULT_VIEW =
     \<lparr>view_latitude = 37.9577, view_longitude = - 121.2908, zoom = 10, pitch = 0\<rparr>"

text \<open>A data frame is the list of its rows. A column exists when some row has the key.\<close>

record session_state =
  df :: "reading list"
  df_map :: "reading list"
  view_state :: ViewState

definition initial_state :: session_state where
  "initial_state = \<lparr>df = [], df_map = [], view_state = DEFAULT_VIEW\<rparr>"

datatype error = KeyError "string list"

text \<open>
  \<open>df.dropna(subset=["latitude","longitude"])\<close>: pandas raises \<open>KeyError\<close> with
  the labels of \<open>subset\<close> that are not columns of the frame, and otherwise keeps the
  rows where both values are present.
\<close>

definition dropna :: "reading list \<Rightarrow> error + reading list" where
  "dropna rows =
     (let missing =
            (if list_ex (\<lambda>r. latitude r \<noteq> None) rows then [] else [''latitude'']) @
            (if list_ex (\<lambda>r. longitude r \<noteq> None) rows then [] else [''longitude''])
      in if missing = [] then
           Inr (filter (\<lambda>r. latitude r \<noteq> None \<and> longitude r \<noteq> None) rows)
         else Inl (KeyError missing))"

text \<open>
  \<open>do_refresh\<close> returns the exception that leaves it, if any, and the session state it
  leaves behind. The assignment to \<open>st.session_state.df\<close> comes before the call of
  \<open>dropna\<close>, so it stays when \<open>dropna\<close> raises.
\<close>

definition do_refresh :: "world \<Rightarrow> session_state \<Rightarrow> error option \<times> session_state" where
  "do_refresh w s =
     (case secrets w ''textkey'' of
        None \<Rightarrow> (Some (KeyError [''textkey'']), s)
      | Some api_key \<Rightarrow>
          (let records = map (get_sensor_data w api_key) SENSOR_INDICES;
               s1 = s\<lparr>df := records\<rparr>
           in case dropna records of
                Inl e \<Rightarrow> (Some e, s1)
              | Inr located \<Rightarrow> (None, s1\<lparr>df_map := located\<rparr>)))"

definition reset_view :: "session_state \<Rightarrow> session_state" where
  "reset_view s = s\<lparr>view_state := DEFAULT_VIEW\<rparr>"

text \<open>The session states that the two buttons can produce.\<close>

inductive_set reachable :: "session_state set" where
  init: "initial_state \<in> reachable"
| refresh: "s \<in> reachable \<Longrightarrow> snd (do_refresh w s) \<in> reachable"
| reset: "s \<in> reachable \<Longrightarrow> reset_view s \<in> reachable"

subsection \<open>The table: sorting by severity\<close>

definition status_priority :: "string \<Rightarrow> nat" where
  "status_priority s =
     (if startswith s cross_mark then 0
      else if startswith s warning_sign then 1
      else if startswith s check_mark then 2
      else 3)"

text \<open>
  \<open>df.sort_values('__priority')\<close>, the column holding \<open>status_priority\<close> of each
  row's status. The order that pandas leaves among rows of equal priority is not used
  below.
\<close>

definition sort_values_priority :: "reading list \<Rightarrow> reading list" where
  "sort_values_priority rows = sort_key (\<lambda>r. status_priority (status r)) rows"

subsection \<open>Concrete inputs\<close>

text \<open>A sensor object with a name and, when \<open>located\<close>, both coordinates.\<close>

definition example_sensor :: "int option \<Rightarrow> int option \<Rightarrow> bool \<Rightarrow> sensor" where
  "example_sensor seen conf located =
     \<lparr>s_name = Some ''Lodi'', s_last_seen = seen, s_confidence = conf,
      s_latitude = (if located then Some 38.13 else None),
      s_longitude = (if located then Some (- 121.27) else None),
      s_others = [(''model'', ''PA-II'')]\<rparr>"

text \<open>A world whose clock reads \<open>now\<close> and whose API gives every request the same
  outcome.\<close>

definition example_world :: "real \<Rightarrow> http_outcome \<Rightarrow> world" where
  "example_world now outcome =
     \<lparr>utcnow = (\<lambda>idx. now), requests_get = (\<lambda>url api_key. outcome),
      secrets = [''textkey'' \<mapsto> ''secret'']\<rparr>"

text \<open>A world where the first configured sensor answers with its position, the second
  without it, and every other request ends in HTTP 404.\<close>

definition mixed_world :: world where
  "mixed_world =
     \<lparr>utcnow = (\<lambda>idx. 1000000100),
      requests_get = (\<lambda>url api_key.
        if url = request_url 270898 then
          Json (Some (example_sensor (Some 1000000000) (Some 90) True))
        else if url = request_url 279253 then
          Json (Some (example_sensor (Some 1000000000) (Some 50) False))
        else HTTPError 404),
      secrets = [''textkey'' \<mapsto> ''secret'']\<rparr>"

section \<open>Classification of a fetched record\<close>

lemma get_sensor_data_Json:
  assumes "requests_get w (request_url idx) api_key = Json body"
  shows "get_sensor_data w api_key idx =
    (let data = get_sensor body in
       if age_seconds w idx data > 600 then
         labelled data idx (offline_label \<lfloor>age_seconds w idx data / 3600\<rfloor>) [255, 0, 0, 160]
       else if conf_or_zero data < 75 then
         labelled data idx (low_confidence_label (conf_or_zero data)) [255, 255, 0, 160]
       else labelled data idx online_label [0, 255, 0, 160])"
  using assms
  by (simp add: get_sensor_data_def age_seconds_def conf_or_zero_def Let_def
      STALE_THRESHOLD_SECONDS_def LOW_CONFIDENCE_THRESHOLD_def)

lemma status_priority_offline: "status_priority (offline_label h) = 0"
  by (simp add: status_priority_def offline_label_def startswith_def cross_mark_def)

lemma status_priority_http: "status_priority (http_error_msg c) = 0"
  by (simp add: status_priority_def http_error_msg_def startswith_def cross_mark_def Let_def)

lemma status_priority_request: "status_priority request_error_label = 0"
  by (simp add: status_priority_def request_error_label_def startswith_def cross_mark_def)

lemma status_priority_low: "status_priority (low_confidence_label c) = 1"
  by (simp add: status_priority_def low_confidence_label_def startswith_def cross_mark_def
      warning_sign_def)

lemma status_priority_online: "status_priority online_label = 2"
  by (simp add: status_priority_def online_label_def startswith_def cross_mark_def
      warning_sign_def check_mark_def)

lemma labels_distinct:
  "offline_label h \<noteq> low_confidence_label c"
  "offline_label h \<noteq> online_label"
  "low_confidence_label c \<noteq> online_label"
  by (simp_all add: offline_label_def low_confidence_label_def online_label_def
      cross_mark_def warning_sign_def check_mark_def)

text \<open>
  Claim C1. A record whose request succeeded gets exactly one of three statuses, by the
  first matching rule with strict comparisons: Offline when the age exceeds 600 seconds,
  whatever the confidence; otherwise LowConfidence when the confidence is below 75;
  otherwise Online. An age of exactly 600 is not Offline and a confidence of exactly 75
  is not LowConfidence. The three label families are pairwise different.
\<close>

theorem classification_first_match:
  assumes "requests_get w (request_url idx) api_key = Json body"
  shows
   "(600 < age_seconds w idx (get_sensor body) \<longrightarrow>
       status (get_sensor_data w api_key idx)
         = offline_label \<lfloor>age_seconds w idx (get_sensor body) / 3600\<rfloor> \<and>
       color (get_sensor_data w api_key idx) = [255, 0, 0, 160]) \<and>
    (age_seconds w idx (get_sensor body) \<le> 600 \<and> conf_or_zero (get_sensor body) < 75 \<longrightarrow>
       status (get_sensor_data w api_key idx)
         = low_confidence_label (conf_or_zero (get_sensor body)) \<and>
       color (get_sensor_data w api_key idx) = [255, 255, 0, 160]) \<and>
    (age_seconds w idx (get_sensor body) \<le> 600 \<and> 75 \<le> conf_or_zero (get_sensor body) \<longrightarrow>
       status (get_sensor_data w api_key idx) = online_label \<and>
       color (get_sensor_data w api_key idx) = [0, 255, 0, 160]) \<and>
    (age_seconds w idx (get_sensor body) = 600 \<longrightarrow>
       (\<forall>h. status (get_sensor_data w api_key idx) \<noteq> offline_label h)) \<and>
    (conf_or_zero (get_sensor body) = 75 \<longrightarrow>
       (\<forall>c. status (get_sensor_data w api_key idx) \<noteq> low_confidence_label c)) \<and>
    offline_label h \<noteq> low_confidence_label c \<and>
    offline_label h \<noteq> online_label \<and>
    low_confidence_label c \<noteq> online_label"
  by (simp add: get_sensor_data_Json [OF assms] Let_def labelled_def
      labels_distinct labels_distinct [symmetric])

theorem classification_first_match_witness:
  "age_seconds (example_world 1000000601 (Json (Some (example_sensor (Some 1000000000) (Some 80) True))))
     270898 (example_sensor (Some 1000000000) (Some 80) True) = 601 \<and>
   status (get_sensor_data
     (example_world 1000000601 (Json (Some (example_sensor (Some 1000000000) (Some 80) True))))
     ''secret'' 270898) = offline_label 0 \<and>
   status (get_sensor_data
     (example_world 1000000100 (Json (Some (example_sensor (Some 1000000000) (Some 50) True))))
     ''secret'' 270898) = low_confidence_label 50 \<and>
   status (get_sensor_data
     (example_world 1000000600 (Json (Some (example_sensor (Some 1000000000) (Some 75) True))))
     ''secret'' 270898) = online_label \<and>
   color (get_sensor_data
     (example_world 1000000600 (Json (Some (example_sensor (Some 1000000000) (Some 75) True))))
     ''secret'' 270898) = [0, 255, 0, 160]"
proof -
  let ?b1 = "Some (example_sensor (Some 1000000000) (Some 80) True)"
  let ?b2 = "Some (example_sensor (Some 1000000000) (Some 50) True)"
  let ?b3 = "Some (example_sensor (Some 1000000000) (Some 75) True)"
  have r1: "requests_get (example_world 1000000601 (Json ?b1)) (request_url 270898) ''secret''
      = Json ?b1"
    by (simp add: example_world_def)
  have r2: "requests_get (example_world 1000000100 (Json ?b2)) (request_url 270898) ''secret''
      = Json ?b2"
    by (simp add: example_world_def)
  have r3: "requests_get (example_world 1000000600 (Json ?b3)) (request_url 270898) ''secret''
      = Json ?b3"
    by (simp add: example_world_def)
  show ?thesis
    using classification_first_match [OF r1] classification_first_match [OF r2]
      classification_first_match [OF r3]
    by (simp add: age_seconds_def conf_or_zero_def get_sensor_def example_world_def
        example_sensor_def)
qed

section \<open>Fetch failures\<close>

lemma digits_chars: "set (digits n) \<subseteq> set ''0123456789''"
proof (induction n rule: digits.induct)
  case (1 n)
  have nth: "''0123456789'' ! k \<in> set ''0123456789''" if "k < 10" for k
    using that nth_mem [of k "''0123456789''"] by simp
  show ?case
  proof (cases "n < 10")
    case True
    then show ?thesis using nth [of n] by (subst digits.simps) simp
  next
    case False
    then have "set (digits (n div 10)) \<subseteq> set ''0123456789''" using 1 by simp
    moreover have "''0123456789'' ! (n mod 10) \<in> set ''0123456789''"
      using nth [of "n mod 10"] by simp
    ultimately show ?thesis using False by (subst digits.simps) simp
  qed
qed

lemma str_int_no_space: "CHR '' '' \<notin> set (str_int i)"
  using digits_chars [of "nat i"] digits_chars [of "nat (- i)"]
  by (auto simp: str_int_def)

lemma str_int_403: "str_int 403 = ''403''"
  by (simp add: str_int_def digits.simps)

lemma str_int_404: "str_int 404 = ''404''"
  by (simp add: str_int_def digits.simps)

lemma http_error_msg_403: "http_error_msg 403 = cross_mark @ '' HTTP 403 (Invalid API Key?)''"
  by (simp add: http_error_msg_def str_int_403)

lemma http_error_msg_404: "http_error_msg 404 = cross_mark @ '' HTTP 404 (Not Found)''"
  by (simp add: http_error_msg_def str_int_404)

lemma http_error_msg_other:
  "code \<noteq> 403 \<Longrightarrow> code \<noteq> 404 \<Longrightarrow> http_error_msg code = cross_mark @ '' HTTP '' @ str_int code"
  by (simp add: http_error_msg_def)

lemma http_error_msg_not_request: "http_error_msg code \<noteq> request_error_label"
  by (simp add: http_error_msg_def request_error_label_def Let_def)

lemma http_error_msg_other_distinct:
  assumes "code \<noteq> 403" "code \<noteq> 404"
  shows "http_error_msg code \<noteq> http_error_msg 403" "http_error_msg code \<noteq> http_error_msg 404"
proof -
  have "str_int code \<noteq> s @ CHR '' '' # t" for s t
    using str_int_no_space [of code] by auto
  from this [of "''403''" "''(Invalid API Key?)''"] this [of "''404''" "''(Not Found)''"]
  show "http_error_msg code \<noteq> http_error_msg 403" "http_error_msg code \<noteq> http_error_msg 404"
    using assms by (simp_all add: http_error_msg_403 http_error_msg_404 http_error_msg_other)
qed

lemma http_error_msg_403_404: "http_error_msg 403 \<noteq> http_error_msg 404"
  by (simp add: http_error_msg_403 http_error_msg_404)

lemma df_after_refresh:
  "secrets w ''textkey'' = Some api_key \<Longrightarrow>
   df (snd (do_refresh w s)) = map (get_sensor_data w api_key) SENSOR_INDICES"
  by (simp add: do_refresh_def Let_def split: sum.split)

text \<open>
  Claim C2. Every failed fetch gives a placeholder record instead of an exception: its
  colour is the offline red, and its status tells the failure class apart. HTTP 403
  carries the invalid-key text, HTTP 404 the not-found text, any other HTTP error its
  numeric code alone, and a request without response the request-error label. The batch
  of a refresh holds the record of every configured sensor, failed or not.
\<close>

theorem fetch_failure_placeholder:
  "(requests_get w (request_url idx) api_key = HTTPError code \<longrightarrow>
      get_sensor_data w api_key idx = placeholder idx (http_error_msg code)) \<and>
   (requests_get w (request_url idx) api_key = RequestException \<longrightarrow>
      get_sensor_data w api_key idx = placeholder idx request_error_label) \<and>
   status (placeholder idx st) = st \<and>
   color (placeholder idx st) = [255, 0, 0, 160] \<and>
   http_error_msg 403 = cross_mark @ '' HTTP 403 (Invalid API Key?)'' \<and>
   http_error_msg 404 = cross_mark @ '' HTTP 404 (Not Found)'' \<and>
   (code \<noteq> 403 \<and> code \<noteq> 404 \<longrightarrow>
      http_error_msg code = cross_mark @ '' HTTP '' @ str_int code \<and>
      http_error_msg code \<noteq> http_error_msg 403 \<and>
      http_error_msg code \<noteq> http_error_msg 404) \<and>
   http_error_msg 403 \<noteq> http_error_msg 404 \<and>
   request_error_label = cross_mark @ '' Request Error'' \<and>
   http_error_msg code \<noteq> request_error_label \<and>
   (secrets w ''textkey'' = Some api_key \<longrightarrow>
      df (snd (do_refresh w s)) = map (get_sensor_data w api_key) SENSOR_INDICES)"
proof -
  have a: "requests_get w (request_url idx) api_key = HTTPError code \<longrightarrow>
      get_sensor_data w api_key idx = placeholder idx (http_error_msg code)"
    by (simp add: get_sensor_data_def)
  have b: "requests_get w (request_url idx) api_key = RequestException \<longrightarrow>
      get_sensor_data w api_key idx = placeholder idx request_error_label"
    by (simp add: get_sensor_data_def)
  have c: "status (placeholder idx st) = st" "color (placeholder idx st) = [255, 0, 0, 160]"
    by (simp_all add: placeholder_def)
  have d: "code \<noteq> 403 \<and> code \<noteq> 404 \<longrightarrow>
      http_error_msg code = cross_mark @ '' HTTP '' @ str_int code \<and>
      http_error_msg code \<noteq> http_error_msg 403 \<and>
      http_error_msg code \<noteq> http_error_msg 404"
    using http_error_msg_other http_error_msg_other_distinct by blast
  have e: "request_error_label = cross_mark @ '' Request Error''"
    by (simp add: request_error_label_def)
  have f: "secrets w ''textkey'' = Some api_key \<longrightarrow>
      df (snd (do_refresh w s)) = map (get_sensor_data w api_key) SENSOR_INDICES"
    by (simp add: df_after_refresh)
  show ?thesis
    by (intro conjI)
      (rule a b c d e f http_error_msg_403 http_error_msg_404 http_error_msg_403_404
        http_error_msg_not_request)+
qed

theorem fetch_failure_placeholder_witness:
  "get_sensor_data (example_world 1000000100 (HTTPError 500)) ''secret'' 270898
     = placeholder 270898 (cross_mark @ '' HTTP 500'') \<and>
   get_sensor_data (example_world 1000000100 RequestException) ''secret'' 270898
     = placeholder 270898 (cross_mark @ '' Request Error'') \<and>
   length (df (snd (do_refresh (example_world 1000000100 (HTTPError 500)) initial_state))) = 26"
proof -
  have s: "str_int 500 = ''500''"
    by (simp add: str_int_def digits.simps)
  show ?thesis
    using fetch_failure_placeholder
      [of "example_world 1000000100 (HTTPError 500)" 270898 "''secret''" 500 "''x''" initial_state]
      fetch_failure_placeholder
      [of "example_world 1000000100 RequestException" 270898 "''secret''" 500 "''x''" initial_state]
    by (simp add: example_world_def s SENSOR_INDICES_def)
qed

section \<open>Severity order and colours\<close>

text \<open>The first three records of a refresh in the mixed world.\<close>

lemma url_neq:
  "request_url 279253 \<noteq> request_url 270898"
  "request_url 279251 \<noteq> request_url 270898"
  "request_url 279251 \<noteq> request_url 279253"
  by (simp_all add: request_url_def str_int_def digits.simps)

lemma mixed_1: "get_sensor_data mixed_world ''secret'' 270898
   = labelled (example_sensor (Some 1000000000) (Some 90) True) 270898 online_label [0, 255, 0, 160]"
  by (simp add: get_sensor_data_Json mixed_world_def get_sensor_def age_seconds_def conf_or_zero_def
      example_sensor_def)

lemma mixed_2: "get_sensor_data mixed_world ''secret'' 279253
   = labelled (example_sensor (Some 1000000000) (Some 50) False) 279253
       (low_confidence_label 50) [255, 255, 0, 160]"
  by (simp add: get_sensor_data_Json mixed_world_def get_sensor_def age_seconds_def conf_or_zero_def
      example_sensor_def url_neq)

lemma mixed_3: "get_sensor_data mixed_world ''secret'' 279251
   = placeholder 279251 (http_error_msg 404)"
  by (simp add: get_sensor_data_def mixed_world_def url_neq)


lemma sorted_key_order:
  assumes "sorted (map f xs)" "i < length xs" "j < length xs" "f (xs ! i) < f (xs ! j)"
  shows "i < j"
proof (rule ccontr)
  assume "\<not> i < j"
  then have "j \<le> i" by simp
  with assms(1,2) have "map f xs ! j \<le> map f xs ! i"
    by (intro sorted_nth_mono) simp_all
  with assms(2,3,4) show False by simp
qed

lemma status_priority_other:
  "\<not> startswith s cross_mark \<Longrightarrow> \<not> startswith s warning_sign \<Longrightarrow>
   \<not> startswith s check_mark \<Longrightarrow> status_priority s = 3"
  by (simp add: status_priority_def)

text \<open>
  Claim C3. The table sort keeps every row and puts any row of lower priority before any
  row of higher priority. Offline and fetch-error labels have priority 0, LowConfidence
  labels 1, the Online label 2, and a status that starts with none of the three emoji 3.
  The order property rests on \<open>sorted_key_order\<close> alone: it holds for every
  arrangement of the rows that is sorted by the key, however ties are broken.
\<close>

theorem table_sorted_by_severity:
  "mset (sort_values_priority rows) = mset rows \<and>
   (\<forall>i j. i < length rows \<and> j < length rows \<and>
      status_priority (status (sort_values_priority rows ! i))
        < status_priority (status (sort_values_priority rows ! j)) \<longrightarrow> i < j) \<and>
   status_priority (offline_label h) = 0 \<and>
   status_priority (http_error_msg code) = 0 \<and>
   status_priority request_error_label = 0 \<and>
   status_priority (low_confidence_label c) = 1 \<and>
   status_priority online_label = 2 \<and>
   (\<not> startswith s cross_mark \<and> \<not> startswith s warning_sign \<and>
    \<not> startswith s check_mark \<longrightarrow> status_priority s = 3)"
proof -
  let ?f = "\<lambda>r. status_priority (status r)"
  have srt: "sorted (map ?f (sort_values_priority rows))"
    by (simp add: sort_values_priority_def)
  have len: "length (sort_values_priority rows) = length rows"
    by (simp add: sort_values_priority_def)
  have ord: "\<forall>i j. i < length rows \<and> j < length rows \<and>
      ?f (sort_values_priority rows ! i) < ?f (sort_values_priority rows ! j) \<longrightarrow> i < j"
  proof (intro allI impI)
    fix i j
    assume h: "i < length rows \<and> j < length rows \<and>
      ?f (sort_values_priority rows ! i) < ?f (sort_values_priority rows ! j)"
    show "i < j"
      by (rule sorted_key_order [OF srt]) (use h len in simp_all)
  qed
  have perm: "mset (sort_values_priority rows) = mset rows"
    by (simp add: sort_values_priority_def)
  have other: "\<not> startswith s cross_mark \<and> \<not> startswith s warning_sign \<and>
    \<not> startswith s check_mark \<longrightarrow> status_priority s = 3"
    by (simp add: status_priority_def)
  show ?thesis
    by (intro conjI)
      (rule perm ord other status_priority_offline status_priority_http
        status_priority_request status_priority_low status_priority_online)+
qed

theorem table_sorted_by_severity_witness:
  "status_priority (status (sort_values_priority
      (map (get_sensor_data mixed_world ''secret'') [270898, 279253, 279251]) ! 0)) = 0 \<and>
   status_priority (status (sort_values_priority
      (map (get_sensor_data mixed_world ''secret'') [270898, 279253, 279251]) ! 2)) = 2 \<and>
   sort_values_priority (map (get_sensor_data mixed_world ''secret'') [270898, 279253, 279251])
     = map (get_sensor_data mixed_world ''secret'') [279251, 279253, 270898] \<and>
   (0::nat) < 2"
proof -
  let ?rows = "map (get_sensor_data mixed_world ''secret'') [270898, 279253, 279251]"
  have p: "status_priority (status (get_sensor_data mixed_world ''secret'' 270898)) = 2"
    "status_priority (status (get_sensor_data mixed_world ''secret'' 279253)) = 1"
    "status_priority (status (get_sensor_data mixed_world ''secret'' 279251)) = 0"
    by (simp_all add: mixed_1 mixed_2 mixed_3 labelled_def placeholder_def
        status_priority_online status_priority_low status_priority_http)
  have s: "sort_values_priority ?rows
     = map (get_sensor_data mixed_world ''secret'') [279251, 279253, 270898]"
    by (simp add: sort_values_priority_def p)
  show ?thesis
    using table_sorted_by_severity [of ?rows 0 50 404 "''unknown''"] s p
    by simp
qed

lemma get_sensor_data_cases:
  "(\<exists>data h. get_sensor_data w k i = labelled data i (offline_label h) (STATUS_COLORS offline)) \<or>
   (\<exists>data c. get_sensor_data w k i
       = labelled data i (low_confidence_label c) (STATUS_COLORS low_confidence)) \<or>
   (\<exists>data. get_sensor_data w k i = labelled data i online_label (STATUS_COLORS online)) \<or>
   (\<exists>code. get_sensor_data w k i = placeholder i (http_error_msg code)) \<or>
   get_sensor_data w k i = placeholder i request_error_label"
  by (cases "requests_get w (request_url i) k") (auto simp: get_sensor_data_def Let_def)

lemma color_of_priority:
  "color (get_sensor_data w k i) =
     (if status_priority (status (get_sensor_data w k i)) = 0 then STATUS_COLORS offline
      else if status_priority (status (get_sensor_data w k i)) = 1
        then STATUS_COLORS low_confidence
      else STATUS_COLORS online) \<and>
   status_priority (status (get_sensor_data w k i)) < 3"
  using get_sensor_data_cases [of w k i]
  by (auto simp: labelled_def placeholder_def status_priority_offline status_priority_http
      status_priority_request status_priority_low status_priority_online)

text \<open>
  Claim C4. Every record that \<open>get_sensor_data\<close> returns has a status of one of the
  three severity classes, and its colour is the colour of that class. Two records with
  the same status have the same colour, and a fetch error has the colour of Offline.
\<close>

theorem color_determined_by_status:
  "status_priority (status (get_sensor_data w k i)) < 3 \<and>
   color (get_sensor_data w k i) =
     (if status_priority (status (get_sensor_data w k i)) = 0 then STATUS_COLORS offline
      else if status_priority (status (get_sensor_data w k i)) = 1
        then STATUS_COLORS low_confidence
      else STATUS_COLORS online) \<and>
   (status (get_sensor_data w k i) = status (get_sensor_data w' k' i') \<longrightarrow>
      color (get_sensor_data w k i) = color (get_sensor_data w' k' i')) \<and>
   (requests_get w (request_url i) k = HTTPError code \<or>
    requests_get w (request_url i) k = RequestException \<longrightarrow>
      status_priority (status (get_sensor_data w k i)) = 0 \<and>
      color (get_sensor_data w k i) = STATUS_COLORS offline) \<and>
   STATUS_COLORS offline = [255, 0, 0, 160]"
proof -
  have same: "color (get_sensor_data w k i) = color (get_sensor_data w' k' i')"
    if "status (get_sensor_data w k i) = status (get_sensor_data w' k' i')"
    using that color_of_priority [of w k i] color_of_priority [of w' k' i'] by simp
  have err: "status_priority (status (get_sensor_data w k i)) = 0 \<and>
      color (get_sensor_data w k i) = STATUS_COLORS offline"
    if "requests_get w (request_url i) k = HTTPError code \<or>
        requests_get w (request_url i) k = RequestException"
    using that
    by (auto simp: get_sensor_data_def placeholder_def status_priority_http
        status_priority_request)
  show ?thesis
    using color_of_priority [of w k i] same err by simp
qed

theorem color_determined_by_status_witness:
  "status_priority (status (get_sensor_data mixed_world ''secret'' 279253)) = 1 \<and>
   color (get_sensor_data mixed_world ''secret'' 279253) = [255, 255, 0, 160] \<and>
   requests_get mixed_world (request_url 279251) ''secret'' = HTTPError 404 \<and>
   color (get_sensor_data mixed_world ''secret'' 279251) = [255, 0, 0, 160] \<and>
   status (get_sensor_data mixed_world ''secret'' 279251)
     = status (get_sensor_data (example_world 5 (HTTPError 404)) ''other'' 155503) \<and>
   color (get_sensor_data mixed_world ''secret'' 279251)
     = color (get_sensor_data (example_world 5 (HTTPError 404)) ''other'' 155503)"
proof -
  have o: "requests_get mixed_world (request_url 279251) ''secret'' = HTTPError 404"
    by (simp add: mixed_world_def url_neq)
  have st: "status (get_sensor_data mixed_world ''secret'' 279251)
     = status (get_sensor_data (example_world 5 (HTTPError 404)) ''other'' 155503)"
  proof -
    have "get_sensor_data (example_world 5 (HTTPError 404)) ''other'' 155503
       = placeholder 155503 (http_error_msg 404)"
      by (simp add: get_sensor_data_def example_world_def)
    then show ?thesis by (simp add: mixed_3 placeholder_def)
  qed
  have p: "status_priority (status (get_sensor_data mixed_world ''secret'' 279253)) = 1"
    by (simp add: mixed_2 labelled_def status_priority_low)
  have c1: "color (get_sensor_data mixed_world ''secret'' 279253) = [255, 255, 0, 160]"
    using color_determined_by_status
        [of mixed_world "''secret''" 279253 mixed_world "''secret''" 279253 0] p
    by simp
  have c2: "color (get_sensor_data mixed_world ''secret'' 279251) = [255, 0, 0, 160]"
    and c3: "color (get_sensor_data mixed_world ''secret'' 279251)
     = color (get_sensor_data (example_world 5 (HTTPError 404)) ''other'' 155503)"
    using color_determined_by_status
        [of mixed_world "''secret''" 279251 "example_world 5 (HTTPError 404)" "''other''"
          155503 404] o st
    by auto
  show ?thesis
    by (intro conjI) (rule p c1 c2 c3 o st)+
qed

section \<open>Answers with missing fields\<close>

lemma low_confidence_label_0: "low_confidence_label 0 = warning_sign @ '' Low Confidence (0%)''"
  by (simp add: low_confidence_label_def str_int_def digits.simps)

text \<open>
  Claim C5. When the request succeeds and the answer has no \<open>confidence\<close>, the
  comparison uses 0: a record that is not Offline (age at most 600 seconds) is
  LowConfidence, with the label for 0 percent and the yellow colour.
\<close>

theorem missing_confidence_is_zero:
  assumes "requests_get w (request_url idx) api_key = Json body"
    and "s_confidence (get_sensor body) = None"
    and "age_seconds w idx (get_sensor body) \<le> 600"
  shows "conf_or_zero (get_sensor body) = 0 \<and>
         status (get_sensor_data w api_key idx) = low_confidence_label 0 \<and>
         low_confidence_label 0 = warning_sign @ '' Low Confidence (0%)'' \<and>
         color (get_sensor_data w api_key idx) = STATUS_COLORS low_confidence"
  using assms(2,3)
  by (simp add: get_sensor_data_Json [OF assms(1)] conf_or_zero_def labelled_def
      low_confidence_label_0 Let_def)

theorem missing_confidence_is_zero_witness:
  "s_confidence (get_sensor (Some (example_sensor (Some 1000000000) None True))) = None \<and>
   age_seconds (example_world 1000000100 (Json (Some (example_sensor (Some 1000000000) None True))))
     155503 (get_sensor (Some (example_sensor (Some 1000000000) None True))) = 100 \<and>
   status (get_sensor_data
     (example_world 1000000100 (Json (Some (example_sensor (Some 1000000000) None True))))
     ''secret'' 155503) = warning_sign @ '' Low Confidence (0%)'' \<and>
   color (get_sensor_data
     (example_world 1000000100 (Json (Some (example_sensor (Some 1000000000) None True))))
     ''secret'' 155503) = [255, 255, 0, 160]"
proof -
  let ?b = "Some (example_sensor (Some 1000000000) None True)"
  let ?w = "example_world 1000000100 (Json ?b)"
  have r: "requests_get ?w (request_url 155503) ''secret'' = Json ?b"
    by (simp add: example_world_def)
  have c: "s_confidence (get_sensor ?b) = None"
    by (simp add: get_sensor_def example_sensor_def)
  have a: "age_seconds ?w 155503 (get_sensor ?b) = 100"
    by (simp add: age_seconds_def get_sensor_def example_sensor_def example_world_def)
  have a': "age_seconds ?w 155503 (get_sensor ?b) \<le> 600"
    by (simp add: a)
  show ?thesis
    using missing_confidence_is_zero [OF r c a'] c a by simp
qed

lemma status_forms:
  "(\<exists>h. status (get_sensor_data w k i) = offline_label h) \<or>
   (\<exists>c. status (get_sensor_data w k i) = low_confidence_label c) \<or>
   status (get_sensor_data w k i) = online_label \<or>
   (\<exists>code. status (get_sensor_data w k i) = http_error_msg code) \<or>
   status (get_sensor_data w k i) = request_error_label"
  using get_sensor_data_cases [of w k i]
  by (auto simp: labelled_def placeholder_def)

text \<open>
  Claim C9. When the request succeeds and the answer has no \<open>last_seen\<close>, the age
  is the clock reading itself. With a clock reading above 600 (any present-day epoch
  time) the record is Offline, and its hour count is the floor of the reading divided by
  3600. Whatever the world, a status is one of the five label forms: there is no label
  for a sensor that was never seen.
\<close>

theorem missing_last_seen_is_epoch:
  assumes "requests_get w (request_url idx) api_key = Json body"
    and "s_last_seen (get_sensor body) = None"
  shows "age_seconds w idx (get_sensor body) = utcnow w idx \<and>
         (600 < utcnow w idx \<longrightarrow>
            status (get_sensor_data w api_key idx) = offline_label \<lfloor>utcnow w idx / 3600\<rfloor> \<and>
            color (get_sensor_data w api_key idx) = STATUS_COLORS offline) \<and>
         ((\<exists>h. status (get_sensor_data w' k' i') = offline_label h) \<or>
          (\<exists>c. status (get_sensor_data w' k' i') = low_confidence_label c) \<or>
          status (get_sensor_data w' k' i') = online_label \<or>
          (\<exists>code. status (get_sensor_data w' k' i') = http_error_msg code) \<or>
          status (get_sensor_data w' k' i') = request_error_label)"
proof -
  have age: "age_seconds w idx (get_sensor body) = utcnow w idx"
    using assms(2) by (simp add: age_seconds_def)
  have off: "600 < utcnow w idx \<longrightarrow>
      status (get_sensor_data w api_key idx) = offline_label \<lfloor>utcnow w idx / 3600\<rfloor> \<and>
      color (get_sensor_data w api_key idx) = STATUS_COLORS offline"
    by (simp add: get_sensor_data_Json [OF assms(1)] age labelled_def Let_def)
  show ?thesis
    by (intro conjI) (rule age off status_forms)+
qed

theorem missing_last_seen_is_epoch_witness:
  "s_last_seen (get_sensor (Some (example_sensor None (Some 90) True))) = None \<and>
   (600::real) < 1762286400 \<and>
   status (get_sensor_data
     (example_world 1762286400 (Json (Some (example_sensor None (Some 90) True))))
     ''secret'' 155503) = cross_mark @ '' Offline (489524 hr ago)'' \<and>
   color (get_sensor_data
     (example_world 1762286400 (Json (Some (example_sensor None (Some 90) True))))
     ''secret'' 155503) = [255, 0, 0, 160]"
proof -
  let ?b = "Some (example_sensor None (Some 90) True)"
  let ?w = "example_world 1762286400 (Json ?b)"
  have r: "requests_get ?w (request_url 155503) ''secret'' = Json ?b"
    by (simp add: example_world_def)
  have c: "s_last_seen (get_sensor ?b) = None"
    by (simp add: get_sensor_def example_sensor_def)
  have u: "utcnow ?w 155503 = 1762286400"
    by (simp add: example_world_def)
  have l: "offline_label 489524 = cross_mark @ '' Offline (489524 hr ago)''"
    by (simp add: offline_label_def str_int_def digits.simps)
  show ?thesis
    using missing_last_seen_is_epoch [OF r c, of ?w "''secret''" 155503] c u l by simp
qed

section \<open>The table set and the map set of a refresh\<close>

lemma dropna_Inr:
  "dropna rows = Inr located \<Longrightarrow>
   located = filter (\<lambda>r. latitude r \<noteq> None \<and> longitude r \<noteq> None) rows"
  by (simp add: dropna_def Let_def split: if_splits)

lemma dropna_Inl:
  "dropna rows = Inl e \<Longrightarrow>
   \<not> list_ex (\<lambda>r. latitude r \<noteq> None) rows \<or> \<not> list_ex (\<lambda>r. longitude r \<noteq> None) rows"
  by (simp add: dropna_def Let_def split: if_splits)

lemma df_map_after_refresh:
  "df_map (snd (do_refresh w s)) = df_map s \<or>
   (\<exists>api_key. secrets w ''textkey'' = Some api_key \<and>
      dropna (map (get_sensor_data w api_key) SENSOR_INDICES) = Inr (df_map (snd (do_refresh w s))))"
  by (simp add: do_refresh_def Let_def split: option.split sum.split)

lemma reachable_df_map_located:
  "s \<in> reachable \<Longrightarrow>
   list_all (\<lambda>r. latitude r \<noteq> None \<and> longitude r \<noteq> None) (df_map s)"
proof (induction rule: reachable.induct)
  case init
  show ?case by (simp add: initial_state_def)
next
  case (refresh s w)
  from df_map_after_refresh [of w s] show ?case
  proof
    assume "df_map (snd (do_refresh w s)) = df_map s"
    with refresh.IH show ?thesis by simp
  next
    assume "\<exists>api_key. secrets w ''textkey'' = Some api_key \<and>
      dropna (map (get_sensor_data w api_key) SENSOR_INDICES) = Inr (df_map (snd (do_refresh w s)))"
    then obtain api_key where
      "dropna (map (get_sensor_data w api_key) SENSOR_INDICES) = Inr (df_map (snd (do_refresh w s)))"
      by blast
    from dropna_Inr [OF this] show ?thesis
      by (simp add: list_all_iff)
  qed
next
  case (reset s)
  then show ?case by (simp add: reset_view_def)
qed

text \<open>
  Claim C6. After a refresh from a reachable session state, every record of the batch is
  in \<open>df\<close>. A record without latitude or without longitude is not in
  \<open>df_map\<close>, and a record with both is in \<open>df_map\<close>.
\<close>

theorem refresh_table_and_map:
  assumes "s \<in> reachable"
    and "secrets w ''textkey'' = Some api_key"
    and "r \<in> set (map (get_sensor_data w api_key) SENSOR_INDICES)"
  shows "r \<in> set (df (snd (do_refresh w s))) \<and>
    (latitude r = None \<or> longitude r = None \<longrightarrow> r \<notin> set (df_map (snd (do_refresh w s)))) \<and>
    (latitude r \<noteq> None \<and> longitude r \<noteq> None \<longrightarrow> r \<in> set (df_map (snd (do_refresh w s))))"
proof -
  let ?records = "map (get_sensor_data w api_key) SENSOR_INDICES"
  let ?s' = "snd (do_refresh w s)"
  have table: "r \<in> set (df ?s')"
    using assms(3) by (simp only: df_after_refresh [OF assms(2)])
  have inv: "list_all (\<lambda>r. latitude r \<noteq> None \<and> longitude r \<noteq> None) (df_map ?s')"
    by (rule reachable_df_map_located) (rule reachable.refresh [OF assms(1)])
  have absent: "latitude r = None \<or> longitude r = None \<longrightarrow> r \<notin> set (df_map ?s')"
    using inv by (auto simp: list_all_iff)
  have present: "r \<in> set (df_map ?s')" if both: "latitude r \<noteq> None \<and> longitude r \<noteq> None"
  proof (cases "dropna ?records")
    case (Inl e)
    from dropna_Inl [OF this] both assms(3) show ?thesis
      by (auto simp: list_ex_iff)
  next
    case (Inr located)
    then have "df_map ?s' = located"
      by (simp add: do_refresh_def assms(2) Let_def)
    with dropna_Inr [OF Inr] both assms(3) show ?thesis by simp
  qed
  show ?thesis
    using table absent present by blast
qed

theorem refresh_table_and_map_witness:
  "initial_state \<in> reachable \<and>
   secrets mixed_world ''textkey'' = Some ''secret'' \<and>
   latitude (get_sensor_data mixed_world ''secret'' 279253) = None \<and>
   get_sensor_data mixed_world ''secret'' 279253
     \<in> set (df (snd (do_refresh mixed_world initial_state))) \<and>
   get_sensor_data mixed_world ''secret'' 279253
     \<notin> set (df_map (snd (do_refresh mixed_world initial_state))) \<and>
   latitude (get_sensor_data mixed_world ''secret'' 270898) = Some 38.13 \<and>
   longitude (get_sensor_data mixed_world ''secret'' 270898) = Some (- 121.27) \<and>
   get_sensor_data mixed_world ''secret'' 270898
     \<in> set (df (snd (do_refresh mixed_world initial_state))) \<and>
   get_sensor_data mixed_world ''secret'' 270898
     \<in> set (df_map (snd (do_refresh mixed_world initial_state)))"
proof -
  have k: "secrets mixed_world ''textkey'' = Some ''secret''"
    by (simp add: mixed_world_def)
  have m1: "get_sensor_data mixed_world ''secret'' 270898
      \<in> set (map (get_sensor_data mixed_world ''secret'') SENSOR_INDICES)"
    and m2: "get_sensor_data mixed_world ''secret'' 279253
      \<in> set (map (get_sensor_data mixed_world ''secret'') SENSOR_INDICES)"
    by (simp_all add: SENSOR_INDICES_def)
  have c1: "latitude (get_sensor_data mixed_world ''secret'' 270898) = Some 38.13"
    "longitude (get_sensor_data mixed_world ''secret'' 270898) = Some (- 121.27)"
    by (simp_all add: mixed_1 labelled_def example_sensor_def)
  have c2: "latitude (get_sensor_data mixed_world ''secret'' 279253) = None"
    by (simp add: mixed_2 labelled_def example_sensor_def)
  show ?thesis
    using refresh_table_and_map [OF reachable.init k m1]
      refresh_table_and_map [OF reachable.init k m2] c1 c2 k reachable.init
    by simp
qed

text \<open>
  When no record of the batch has a coordinate (here: every request ends in HTTP 403),
  \<open>dropna\<close> raises: the exception leaves \<open>do_refresh\<close> after \<open>df\<close> was
  replaced, and \<open>df_map\<close> keeps the rows of the refresh before.
\<close>

lemma refresh_all_failed:
  "do_refresh (example_world now (HTTPError 403)) s =
     (Some (KeyError [''latitude'', ''longitude'']),
      s\<lparr>df := map (\<lambda>idx. placeholder idx (http_error_msg 403)) SENSOR_INDICES\<rparr>)"
  by (simp add: do_refresh_def example_world_def get_sensor_data_def dropna_def Let_def
      list_ex_iff placeholder_def)

section \<open>The clock reading\<close>

text \<open>
  The clock is read inside \<open>get_sensor_data\<close>; it is not an argument. Two calls
  with the same API key and sensor index, answered by the same response (same
  \<open>last_seen\<close>, same \<open>confidence\<close>), get different statuses and colours when the
  clock reads 100 seconds after \<open>last_seen\<close> in one world and 700 seconds after it
  in the other.
\<close>

theorem hidden_clock_counterexample:
  "requests_get (example_world 1000000100 (Json (Some (example_sensor (Some 1000000000) (Some 80) True))))
      (request_url 270898) ''secret''
     = requests_get (example_world 1000000700 (Json (Some (example_sensor (Some 1000000000) (Some 80) True))))
      (request_url 270898) ''secret'' \<and>
   status (get_sensor_data
      (example_world 1000000100 (Json (Some (example_sensor (Some 1000000000) (Some 80) True))))
      ''secret'' 270898) = online_label \<and>
   status (get_sensor_data
      (example_world 1000000700 (Json (Some (example_sensor (Some 1000000000) (Some 80) True))))
      ''secret'' 270898) = offline_label 0 \<and>
   status (get_sensor_data
      (example_world 1000000100 (Json (Some (example_sensor (Some 1000000000) (Some 80) True))))
      ''secret'' 270898)
     \<noteq> status (get_sensor_data
      (example_world 1000000700 (Json (Some (example_sensor (Some 1000000000) (Some 80) True))))
      ''secret'' 270898) \<and>
   color (get_sensor_data
      (example_world 1000000100 (Json (Some (example_sensor (Some 1000000000) (Some 80) True))))
      ''secret'' 270898)
     \<noteq> color (get_sensor_data
      (example_world 1000000700 (Json (Some (example_sensor (Some 1000000000) (Some 80) True))))
      ''secret'' 270898)"
proof -
  let ?b = "Some (example_sensor (Some 1000000000) (Some 80) True)"
  have a: "get_sensor_data (example_world 1000000100 (Json ?b)) ''secret'' 270898
     = labelled (example_sensor (Some 1000000000) (Some 80) True) 270898 online_label
         [0, 255, 0, 160]"
    by (simp add: get_sensor_data_Json example_world_def get_sensor_def age_seconds_def
        conf_or_zero_def example_sensor_def)
  have b: "get_sensor_data (example_world 1000000700 (Json ?b)) ''secret'' 270898
     = labelled (example_sensor (Some 1000000000) (Some 80) True) 270898 (offline_label 0)
         [255, 0, 0, 160]"
    by (simp add: get_sensor_data_Json example_world_def get_sensor_def age_seconds_def
        conf_or_zero_def example_sensor_def)
  show ?thesis
    by (simp add: a b labelled_def labels_distinct [symmetric]) (simp add: example_world_def)
qed

text \<open>
  Claim C7, amended. The status and the colour of a successfully fetched record are
  determined by three values: the clock reading that \<open>get_sensor_data\<close> takes during
  the call, \<open>last_seen\<close> and \<open>confidence\<close>. Two calls that agree on the three
  agree on status and colour, whatever else differs (API key, sensor index, the other
  fields of the answer).
\<close>

theorem status_determined_by_clock_and_fields:
  assumes "requests_get w1 (request_url i1) k1 = Json b1"
    and "requests_get w2 (request_url i2) k2 = Json b2"
    and "utcnow w1 i1 = utcnow w2 i2"
    and "s_last_seen (get_sensor b1) = s_last_seen (get_sensor b2)"
    and "s_confidence (get_sensor b1) = s_confidence (get_sensor b2)"
  shows "status (get_sensor_data w1 k1 i1) = status (get_sensor_data w2 k2 i2) \<and>
         color (get_sensor_data w1 k1 i1) = color (get_sensor_data w2 k2 i2)"
proof -
  have age: "age_seconds w1 i1 (get_sensor b1) = age_seconds w2 i2 (get_sensor b2)"
    using assms(3,4) by (simp add: age_seconds_def)
  have conf: "conf_or_zero (get_sensor b1) = conf_or_zero (get_sensor b2)"
    using assms(5) by (simp add: conf_or_zero_def)
  show ?thesis
    by (simp add: get_sensor_data_Json [OF assms(1)] get_sensor_data_Json [OF assms(2)]
        age conf Let_def labelled_def)
qed

theorem status_determined_by_clock_and_fields_witness:
  "utcnow (example_world 1000000100 (Json (Some (example_sensor (Some 1000000000) (Some 50) True)))) 270898
     = utcnow (example_world 1000000100 (Json (Some (example_sensor (Some 1000000000) (Some 50) False)))) 155503 \<and>
   status (get_sensor_data
      (example_world 1000000100 (Json (Some (example_sensor (Some 1000000000) (Some 50) True))))
      ''secret'' 270898)
     = status (get_sensor_data
      (example_world 1000000100 (Json (Some (example_sensor (Some 1000000000) (Some 50) False))))
      ''other'' 155503) \<and>
   color (get_sensor_data
      (example_world 1000000100 (Json (Some (example_sensor (Some 1000000000) (Some 50) True))))
      ''secret'' 270898)
     = color (get_sensor_data
      (example_world 1000000100 (Json (Some (example_sensor (Some 1000000000) (Some 50) False))))
      ''other'' 155503)"
proof -
  let ?b1 = "Some (example_sensor (Some 1000000000) (Some 50) True)"
  let ?b2 = "Some (example_sensor (Some 1000000000) (Some 50) False)"
  let ?w1 = "example_world 1000000100 (Json ?b1)"
  let ?w2 = "example_world 1000000100 (Json ?b2)"
  have r1: "requests_get ?w1 (request_url 270898) ''secret'' = Json ?b1"
    and r2: "requests_get ?w2 (request_url 155503) ''other'' = Json ?b2"
    and u: "utcnow ?w1 270898 = utcnow ?w2 155503"
    by (simp_all add: example_world_def)
  have f: "s_last_seen (get_sensor ?b1) = s_last_seen (get_sensor ?b2)"
    "s_confidence (get_sensor ?b1) = s_confidence (get_sensor ?b2)"
    by (simp_all add: get_sensor_def example_sensor_def)
  show ?thesis
    using status_determined_by_clock_and_fields [OF r1 r2 u f] u by simp
qed

section \<open>The boundary example\<close>

lemma boundary_record:
  "get_sensor_data
     (example_world 1000000600 (Json (Some (example_sensor (Some 1000000000) (Some 80) True))))
     ''secret'' 270898
   = labelled (example_sensor (Some 1000000000) (Some 80) True) 270898 online_label
       [0, 255, 0, 160]"
  by (simp add: get_sensor_data_Json example_world_def get_sensor_def age_seconds_def
      conf_or_zero_def example_sensor_def)

text \<open>
  The example of the specification at \<open>now = 1000000600\<close>,
  \<open>last_seen = 1000000000\<close>, \<open>confidence = 80\<close>: the age is exactly 600, the
  status does not start with the cross mark, does not contain \<open>1 hr ago\<close>, and the
  colour is not the offline red.
\<close>

theorem boundary_example_counterexample:
  "age_seconds
     (example_world 1000000600 (Json (Some (example_sensor (Some 1000000000) (Some 80) True))))
     270898 (example_sensor (Some 1000000000) (Some 80) True) = 600 \<and>
   \<not> startswith (status (get_sensor_data
     (example_world 1000000600 (Json (Some (example_sensor (Some 1000000000) (Some 80) True))))
     ''secret'' 270898)) cross_mark \<and>
   \<not> contains (status (get_sensor_data
     (example_world 1000000600 (Json (Some (example_sensor (Some 1000000000) (Some 80) True))))
     ''secret'' 270898)) ''1 hr ago'' \<and>
   color (get_sensor_data
     (example_world 1000000600 (Json (Some (example_sensor (Some 1000000000) (Some 80) True))))
     ''secret'' 270898) \<noteq> STATUS_COLORS offline"
proof -
  have age: "age_seconds
     (example_world 1000000600 (Json (Some (example_sensor (Some 1000000000) (Some 80) True))))
     270898 (example_sensor (Some 1000000000) (Some 80) True) = 600"
    by (simp add: age_seconds_def example_world_def example_sensor_def)
  show ?thesis
    by (simp add: age)
      (simp add: boundary_record labelled_def online_label_def check_mark_def cross_mark_def
        startswith_def)
qed

text \<open>
  Claim C8, amended. At \<open>now = 1000000600\<close>, \<open>last_seen = 1000000000\<close>,
  \<open>confidence = 80\<close> the record is Online, in green. One second later it is Offline
  with \<open>0 hr ago\<close>; \<open>1 hr ago\<close> is the label at an age of 3600 seconds.
\<close>

theorem boundary_example_online:
  "status (get_sensor_data
     (example_world 1000000600 (Json (Some (example_sensor (Some 1000000000) (Some 80) True))))
     ''secret'' 270898) = check_mark @ '' Online'' \<and>
   color (get_sensor_data
     (example_world 1000000600 (Json (Some (example_sensor (Some 1000000000) (Some 80) True))))
     ''secret'' 270898) = [0, 255, 0, 160] \<and>
   status (get_sensor_data
     (example_world 1000000601 (Json (Some (example_sensor (Some 1000000000) (Some 80) True))))
     ''secret'' 270898) = cross_mark @ '' Offline (0 hr ago)'' \<and>
   status (get_sensor_data
     (example_world 1000003600 (Json (Some (example_sensor (Some 1000000000) (Some 80) True))))
     ''secret'' 270898) = cross_mark @ '' Offline (1 hr ago)''"
proof -
  have s: "offline_label 0 = cross_mark @ '' Offline (0 hr ago)''"
    "offline_label 1 = cross_mark @ '' Offline (1 hr ago)''"
    by (simp_all add: offline_label_def str_int_def digits.simps)
  have a: "status (get_sensor_data
     (example_world 1000000601 (Json (Some (example_sensor (Some 1000000000) (Some 80) True))))
     ''secret'' 270898) = offline_label 0"
    by (simp add: get_sensor_data_Json example_world_def get_sensor_def age_seconds_def
        conf_or_zero_def example_sensor_def labelled_def)
  have b: "status (get_sensor_data
     (example_world 1000003600 (Json (Some (example_sensor (Some 1000000000) (Some 80) True))))
     ''secret'' 270898) = offline_label 1"
    by (simp add: get_sensor_data_Json example_world_def get_sensor_def age_seconds_def
        conf_or_zero_def example_sensor_def labelled_def)
  show ?thesis
    by (simp add: boundary_record labelled_def online_label_def a b s)
qed

section \<open>The camera\<close>

text \<open>
  Claim C10. \<open>reset_view\<close> sets the camera to latitude 37.9577, longitude -121.2908,
  zoom 10, pitch 0 and changes nothing else: \<open>df\<close> and \<open>df_map\<close> stay as they
  were. \<open>do_refresh\<close> leaves the camera as it was, whether it returns or raises.
\<close>

theorem reset_view_frame:
  "view_state (reset_view s)
     = \<lparr>view_latitude = 37.9577, view_longitude = - 121.2908, zoom = 10, pitch = 0\<rparr> \<and>
   df (reset_view s) = df s \<and>
   df_map (reset_view s) = df_map s \<and>
   reset_view s = s\<lparr>view_state := DEFAULT_VIEW\<rparr> \<and>
   view_state (snd (do_refresh w s)) = view_state s"
  by (simp add: reset_view_def DEFAULT_VIEW_def do_refresh_def Let_def
      split: option.split sum.split)

theorem reset_view_frame_witness:
  "view_state (reset_view (snd (do_refresh mixed_world initial_state))) = DEFAULT_VIEW \<and>
   df (reset_view (snd (do_refresh mixed_world initial_state)))
     = df (snd (do_refresh mixed_world initial_state)) \<and>
   df_map (reset_view (snd (do_refresh mixed_world initial_state)))
     = df_map (snd (do_refresh mixed_world initial_state)) \<and>
   view_state (snd (do_refresh mixed_world
       (initial_state\<lparr>view_state := \<lparr>view_latitude = 38, view_longitude = - 121,
          zoom = 12, pitch = 30\<rparr>\<rparr>)))
     = \<lparr>view_latitude = 38, view_longitude = - 121, zoom = 12, pitch = 30\<rparr>"
  using reset_view_frame [of "snd (do_refresh mixed_world initial_state)" mixed_world]
    reset_view_frame [of "initial_state\<lparr>view_state := \<lparr>view_latitude = 38,
      view_longitude = - 121, zoom = 12, pitch = 30\<rparr>\<rparr>" mixed_world]
  by (simp add: DEFAULT_VIEW_def)

end
